theory Spec2Isabelle
  imports Complex_Main
begin

section \<open>Strings shared by the JavaScript and the PHP code\<close>

text \<open>
  A string is a list of characters with codes below 256.  A HTTP header value is such a
  string in both runtimes (a byte string in PHP, a string of code points below 256 in a
  JavaScript \<^verbatim>\<open>Headers\<close> object), and \<^verbatim>\<open>length\<close> counts what
  \<^verbatim>\<open>.length\<close> and \<^verbatim>\<open>strlen\<close> count.

  \<^verbatim>\<open>s.split(sep)\<close> of JavaScript and \<^verbatim>\<open>explode(sep, s)\<close> of PHP, for a
  separator of one character: the pieces between the separators, the empty ones included;
  a string without separator is its own single piece.
\<close>

fun split_on :: "char \<Rightarrow> string \<Rightarrow> string list" where
  "split_on sep [] = [[]]"
| "split_on sep (c # cs) =
     (if c = sep then [] # split_on sep cs
      else (case split_on sep cs of
              [] \<Rightarrow> [[c]]
            | w # ws \<Rightarrow> (c # w) # ws))"

text \<open>The value of a run of decimal digits, most significant digit first.\<close>

definition is_digit :: "char \<Rightarrow> bool" where
  "is_digit c = (48 \<le> (of_char c :: nat) \<and> (of_char c :: nat) \<le> 57)"

definition dec_value :: "string \<Rightarrow> int" where
  "dec_value ds = foldl (\<lambda>acc c. 10 * acc + ((of_char c :: int) - 48)) 0 ds"

text \<open>Hexadecimal digits, in either case.\<close>

definition is_hex :: "char \<Rightarrow> bool" where
  "is_hex c =
     (is_digit c \<or> (97 \<le> (of_char c :: nat) \<and> (of_char c :: nat) \<le> 102)
        \<or> (65 \<le> (of_char c :: nat) \<and> (of_char c :: nat) \<le> 70))"

section \<open>Webhook verification in the merchant SDK (javascript/src/merchant.ts)\<close>

subsection \<open>The runtime: errors, buffers, \<^verbatim>\<open>parseInt\<close>\<close>

text \<open>
  What JavaScript code throws.  \<^verbatim>\<open>RangeError\<close> is thrown by
  \<^verbatim>\<open>crypto.timingSafeEqual\<close>, \<^verbatim>\<open>SyntaxError\<close> by
  \<^verbatim>\<open>JSON.parse\<close>, \<^verbatim>\<open>TypeError\<close> by \<^verbatim>\<open>fetch\<close> when the network
  fails (\<open>JsTypeError\<close> here; PHP has a class of the same name);
  \<^verbatim>\<open>Error\<close> and \<^verbatim>\<open>SahelPayError\<close> (message, code, HTTP status) are the two
  classes the SDK itself constructs.
\<close>

datatype js_error =
    RangeError string
  | SyntaxError string
  | JsTypeError string
  | Error string
  | SahelPayError string string int

fun message :: "js_error \<Rightarrow> string" where
  "message (RangeError m) = m"
| "message (SyntaxError m) = m"
| "message (JsTypeError m) = m"
| "message (Error m) = m"
| "message (SahelPayError m code status) = m"

text \<open>
  \<^verbatim>\<open>Buffer.from(s)\<close> encodes a string in UTF-8: one byte for a code below 128, two
  bytes for the other codes below 256.
\<close>

definition utf8_char :: "char \<Rightarrow> nat list" where
  "utf8_char c =
     (let n = (of_char c :: nat)
      in if n < 128 then [n] else [192 + n div 64, 128 + n mod 64])"

definition Buffer_from :: "string \<Rightarrow> nat list" where
  "Buffer_from s = concat (map utf8_char s)"

text \<open>
  \<^verbatim>\<open>crypto.timingSafeEqual(a, b)\<close> throws a \<^verbatim>\<open>RangeError\<close> when the two
  buffers differ in byte length, and otherwise says whether they hold the same bytes.
  The model has its result; the time the comparison takes is not part of it.
\<close>

definition timingSafeEqual :: "nat list \<Rightarrow> nat list \<Rightarrow> js_error + bool" where
  "timingSafeEqual a b =
     (if length a \<noteq> length b
      then Inl (RangeError ''Input buffers must have the same byte length'')
      else Inr (a = b))"

text \<open>
  \<^verbatim>\<open>parseInt(s, 10)\<close>: leading white space is skipped, one sign is read, then
  the longest run of decimal digits; without a digit the result is \<^verbatim>\<open>NaN\<close>,
  here \<open>None\<close>.  The white space of ECMAScript with a code below 256 is TAB, LF, VT, FF,
  CR, SP and NBSP.  Numbers are unbounded integers in this model; the runtime's doubles
  agree with them up to \<open>2 ^ 53\<close>.
\<close>

definition js_whitespace :: "char \<Rightarrow> bool" where
  "js_whitespace c = ((of_char c :: nat) \<in> {9, 10, 11, 12, 13, 32, 160})"

definition parseInt10 :: "string \<Rightarrow> int option" where
  "parseInt10 s =
     (let s1 = dropWhile js_whitespace s;
          sign = (case s1 of [] \<Rightarrow> (1 :: int) | c # r \<Rightarrow> if c = CHR ''-'' then - 1 else 1);
          s2 = (case s1 of [] \<Rightarrow> [] | c # r \<Rightarrow> if c = CHR ''-'' \<or> c = CHR ''+'' then r else s1);
          ds = takeWhile is_digit s2
      in if ds = [] then None else Some (sign * dec_value ds))"

text \<open>
  What the code takes from its runtime: the HMAC-SHA256 of a message under a key, rendered
  in hexadecimal (\<^verbatim>\<open>createHmac('sha256', key).update(msg).digest('hex')\<close>),
  \<^verbatim>\<open>JSON.parse\<close>, which returns a value or throws, and the clock
  \<^verbatim>\<open>Date.now()\<close> in milliseconds.
\<close>

record 'j js_runtime =
  hmac_sha256_hex :: "string \<Rightarrow> string \<Rightarrow> string"
  JSON_parse :: "string \<Rightarrow> js_error + 'j"
  Date_now :: int

subsection \<open>The signature header\<close>

text \<open>
  \<^verbatim>\<open>const [key, value] = part.split('='); if (key && value) parts[key] = value;\<close>
  The destructuring takes the first two pieces; a missing piece is \<^verbatim>\<open>undefined\<close>,
  which is as false as the empty string.
\<close>

definition header_pair :: "string \<Rightarrow> (string \<times> string) option" where
  "header_pair part =
     (case split_on CHR ''='' part of
        key # value # rest \<Rightarrow> if key \<noteq> [] \<and> value \<noteq> [] then Some (key, value) else None
      | _ \<Rightarrow> None)"

text \<open>
  The object \<^verbatim>\<open>parts\<close> as a map; a later pair with the same key replaces an earlier
  one.  Only the keys \<^verbatim>\<open>t\<close> and \<^verbatim>\<open>v1\<close> are ever read.
\<close>

definition add_part :: "(string \<rightharpoonup> string) \<Rightarrow> string \<Rightarrow> (string \<rightharpoonup> string)" where
  "add_part parts part =
     (case header_pair part of None \<Rightarrow> parts | Some (key, value) \<Rightarrow> parts(key \<mapsto> value))"

definition header_parts :: "string \<Rightarrow> (string \<rightharpoonup> string)" where
  "header_parts signatureHeader = foldl add_part Map.empty (split_on CHR '','' signatureHeader)"

subsection \<open>\<^verbatim>\<open>SahelPayMerchant.verifyWebhook\<close>\<close>

record 'j WebhookVerificationResult =
  valid :: bool
  payload :: "'j option"
  error :: "string option"

definition rejected :: "string \<Rightarrow> 'j WebhookVerificationResult" where
  "rejected msg = \<lparr>valid = False, payload = None, error = Some msg\<rparr>"

definition accepted :: "'j \<Rightarrow> 'j WebhookVerificationResult" where
  "accepted p = \<lparr>valid = True, payload = Some p, error = None\<rparr>"

text \<open>
  The comparison of a supplied signature with the expected one, followed by the parsing of
  the body: the two statements at the end of both branches of the function.  Either may
  throw.
\<close>

definition compare_then_parse ::
  "'j js_runtime \<Rightarrow> string \<Rightarrow> string \<Rightarrow> string \<Rightarrow> string \<Rightarrow> js_error + 'j WebhookVerificationResult" where
  "compare_then_parse rt supplied expected mismatch rawBody =
     (case timingSafeEqual (Buffer_from supplied) (Buffer_from expected) of
        Inl e \<Rightarrow> Inl e
      | Inr same \<Rightarrow>
          if \<not> same then Inr (rejected mismatch)
          else (case JSON_parse rt rawBody of
                  Inl e \<Rightarrow> Inl e
                | Inr p \<Rightarrow> Inr (accepted p)))"

text \<open>The body of the \<^verbatim>\<open>try\<close> block.\<close>

definition verifyWebhook_try ::
  "'j js_runtime \<Rightarrow> string \<Rightarrow> string \<Rightarrow> string \<Rightarrow> int \<Rightarrow> js_error + 'j WebhookVerificationResult" where
  "verifyWebhook_try rt webhookSecret rawBody signatureHeader toleranceSeconds =
     (let parts = header_parts signatureHeader;
          timestamp = parts ''t'';
          signature = parts ''v1''
      in if timestamp = None \<and> signature = None \<and> length signatureHeader = 64
         then compare_then_parse rt signatureHeader (hmac_sha256_hex rt webhookSecret rawBody)
                ''Invalid signature (legacy)'' rawBody
         else (case (timestamp, signature) of
                 (Some ts, Some sg) \<Rightarrow>
                   (let now = Date_now rt div 1000;
                        stale = (case parseInt10 ts of
                                   None \<Rightarrow> False
                                 | Some timestampNum \<Rightarrow> \<bar>now - timestampNum\<bar> > toleranceSeconds)
                    in if stale then Inr (rejected ''Timestamp too old, possible replay attack'')
                       else compare_then_parse rt sg
                              (hmac_sha256_hex rt webhookSecret (ts @ ''.'' @ rawBody))
                              ''Invalid signature'' rawBody)
               | _ \<Rightarrow> Inr (rejected ''Invalid signature header format'')))"

text \<open>
  The whole function.  The secret is a field of the object and may be absent; the header
  may be \<^verbatim>\<open>null\<close>.  Both tests are for falsehood, so the empty string counts as
  absent.  The \<^verbatim>\<open>catch\<close> clause turns whatever the block throws into a result.
  The function's own type keeps the possibility of throwing.
\<close>

definition verifyWebhook ::
  "'j js_runtime \<Rightarrow> string option \<Rightarrow> string \<Rightarrow> string option \<Rightarrow> int
     \<Rightarrow> js_error + 'j WebhookVerificationResult" where
  "verifyWebhook rt webhookSecret rawBody signatureHeader toleranceSeconds =
     (case webhookSecret of
        None \<Rightarrow> Inr (rejected ''webhookSecret not configured'')
      | Some secret \<Rightarrow>
          if secret = [] then Inr (rejected ''webhookSecret not configured'')
          else (case signatureHeader of
                  None \<Rightarrow> Inr (rejected ''Missing signature header'')
                | Some header \<Rightarrow>
                    if header = [] then Inr (rejected ''Missing signature header'')
                    else (case verifyWebhook_try rt secret rawBody header toleranceSeconds of
                            Inl e \<Rightarrow> Inr (rejected (message e))
                          | Inr r \<Rightarrow> Inr r)))"

subsection \<open>The webhook route of the Next.js template: \<^verbatim>\<open>verifySignature\<close>\<close>

text \<open>
  The template's route handler carries its own copy of the check.  It differs from the SDK's
  in three places: the secret is an argument, the body is not parsed, and the
  \<^verbatim>\<open>catch\<close> clause reports \<^verbatim>\<open>String(error)\<close>, the name of the error's class
  before its message.
\<close>

record SignatureCheck =
  sig_valid :: bool
  sig_error :: "string option"

fun js_String :: "js_error \<Rightarrow> string" where
  "js_String (RangeError m) = ''RangeError: '' @ m"
| "js_String (SyntaxError m) = ''SyntaxError: '' @ m"
| "js_String (JsTypeError m) = ''TypeError: '' @ m"
| "js_String (Error m) = ''Error: '' @ m"
| "js_String (SahelPayError m code status) = ''SahelPayError: '' @ m"

definition verifySignature_try ::
  "'j js_runtime \<Rightarrow> string \<Rightarrow> string \<Rightarrow> string \<Rightarrow> int \<Rightarrow> js_error + SignatureCheck" where
  "verifySignature_try rt rawBody signatureHeader secret toleranceSeconds =
     (let parts = header_parts signatureHeader;
          timestamp = parts ''t'';
          signature = parts ''v1''
      in if timestamp = None \<and> signature = None \<and> length signatureHeader = 64
         then (case timingSafeEqual (Buffer_from signatureHeader)
                      (Buffer_from (hmac_sha256_hex rt secret rawBody)) of
                 Inl e \<Rightarrow> Inl e
               | Inr isValid \<Rightarrow> Inr \<lparr>sig_valid = isValid, sig_error = None\<rparr>)
         else (case (timestamp, signature) of
                 (Some ts, Some sg) \<Rightarrow>
                   (let now = Date_now rt div 1000;
                        stale = (case parseInt10 ts of
                                   None \<Rightarrow> False
                                 | Some timestampNum \<Rightarrow> \<bar>now - timestampNum\<bar> > toleranceSeconds)
                    in if stale then Inr \<lparr>sig_valid = False, sig_error = Some ''Timestamp too old''\<rparr>
                       else (case timingSafeEqual (Buffer_from sg)
                                    (Buffer_from (hmac_sha256_hex rt secret (ts @ ''.'' @ rawBody))) of
                               Inl e \<Rightarrow> Inl e
                             | Inr isValid \<Rightarrow>
                                 Inr \<lparr>sig_valid = isValid,
                                      sig_error = (if isValid then None else Some ''Invalid signature'')\<rparr>))
               | _ \<Rightarrow> Inr \<lparr>sig_valid = False, sig_error = Some ''Invalid signature format''\<rparr>))"

definition verifySignature ::
  "'j js_runtime \<Rightarrow> string \<Rightarrow> string \<Rightarrow> string \<Rightarrow> int \<Rightarrow> js_error + SignatureCheck" where
  "verifySignature rt rawBody signatureHeader secret toleranceSeconds =
     (case verifySignature_try rt rawBody signatureHeader secret toleranceSeconds of
        Inl e \<Rightarrow> Inr \<lparr>sig_valid = False, sig_error = Some (js_String e)\<rparr>
      | Inr r \<Rightarrow> Inr r)"

text \<open>Whether a call came back with a result that says valid.\<close>

definition is_valid :: "js_error + 'j WebhookVerificationResult \<Rightarrow> bool" where
  "is_valid r = (case r of Inl e \<Rightarrow> False | Inr res \<Rightarrow> valid res)"

definition is_sig_valid :: "js_error + SignatureCheck \<Rightarrow> bool" where
  "is_sig_valid r = (case r of Inl e \<Rightarrow> False | Inr res \<Rightarrow> sig_valid res)"

section \<open>Webhook verification and parsing in the PHP SDK (php/src/Resources/Webhook.php)\<close>

subsection \<open>Decoded JSON\<close>

text \<open>
  What \<^verbatim>\<open>json_decode($payload, true)\<close> and \<^verbatim>\<open>JSON.parse\<close> build.  With the
  flag \<^verbatim>\<open>true\<close> PHP turns a JSON object into an array with string keys, here the
  list of its entries, and a JSON array into a list.  A number keeps its value only; PHP's
  integers and floats are not told apart, since the code tests a number for zero and for
  nothing else.
\<close>

datatype json =
    JNull
  | JBool bool
  | JNumber rat
  | JString string
  | JArray "json list"
  | JObject "(string \<times> json) list"

text \<open>
  What PHP code throws here.  \<^verbatim>\<open>TypeError\<close> is raised by the engine when a value
  does not fit a declared parameter or return type; the file declares
  \<^verbatim>\<open>strict_types=1\<close>.  The engine's message names the type of the value and the
  place of the call; the model keeps the class only.
\<close>

datatype php_error =
    RuntimeException string
  | WebhookSignatureException string
  | InvalidArgumentException string
  | TypeError

text \<open>
  What the code takes from PHP: \<^verbatim>\<open>hash_hmac('sha256', $data, $key)\<close> (the data
  first, then the key), \<^verbatim>\<open>intval\<close> on a string, the clock \<^verbatim>\<open>time()\<close> in
  seconds, and the JSON decoder: \<open>None\<close> where \<^verbatim>\<open>json_decode\<close> gives up on the
  text and returns \<^verbatim>\<open>null\<close> for that reason.
\<close>

record php_runtime =
  hash_hmac_sha256 :: "string \<Rightarrow> string \<Rightarrow> string"
  intval :: "string \<Rightarrow> int"
  time :: int
  json_decode :: "string \<Rightarrow> json option"

text \<open>
  PHP's conversion to bool.  The strings that count as false are the empty string and
  \<^verbatim>\<open>"0"\<close>; \<^verbatim>\<open>!$s\<close> is true for them and for \<^verbatim>\<open>null\<close>.
\<close>

definition falsy_string :: "string \<Rightarrow> bool" where
  "falsy_string s = (s = [] \<or> s = ''0'')"

fun truthy :: "json \<Rightarrow> bool" where
  "truthy JNull = False"
| "truthy (JBool b) = b"
| "truthy (JNumber n) = (n \<noteq> 0)"
| "truthy (JString s) = (\<not> falsy_string s)"
| "truthy (JArray xs) = (xs \<noteq> [])"
| "truthy (JObject kvs) = (kvs \<noteq> [])"

subsection \<open>\<^verbatim>\<open>Webhook::parseSignatureHeader\<close> and \<^verbatim>\<open>Webhook::verify\<close>\<close>

text \<open>
  \<^verbatim>\<open>explode('=', $part, 2)\<close>: at most two pieces, the second holding the rest of
  the string after the first separator.
\<close>

definition explode_2 :: "char \<Rightarrow> string \<Rightarrow> string list" where
  "explode_2 sep s =
     (if sep \<in> set s
      then [takeWhile (\<lambda>c. c \<noteq> sep) s, tl (dropWhile (\<lambda>c. c \<noteq> sep) s)]
      else [s])"

definition add_segment :: "(string \<rightharpoonup> string) \<Rightarrow> string \<Rightarrow> (string \<rightharpoonup> string)" where
  "add_segment parts part =
     (case explode_2 CHR ''='' part of
        [key, val] \<Rightarrow> parts(key \<mapsto> val)
      | _ \<Rightarrow> parts)"

definition parseSignatureHeader :: "string \<Rightarrow> (string \<rightharpoonup> string)" where
  "parseSignatureHeader header = foldl add_segment Map.empty (split_on CHR '','' header)"

text \<open>
  \<^verbatim>\<open>Webhook::verify\<close>.  It returns \<^verbatim>\<open>true\<close> or throws.  The secret comes from
  the configuration and may be \<^verbatim>\<open>null\<close>.  \<^verbatim>\<open>hash_equals\<close> never throws on
  two strings: it is equality of strings.  The messages are the source's; the
  last letter of the first one is an e with an acute accent, two bytes in the UTF-8 of the
  source file.
\<close>

definition secret_not_configured :: string where
  "secret_not_configured = ''Webhook secret non configur'' @ [CHR 0xC3, CHR 0xA9]"

definition verify :: "php_runtime \<Rightarrow> string option \<Rightarrow> string \<Rightarrow> string \<Rightarrow> int \<Rightarrow> php_error + bool" where
  "verify rt webhookSecret body signatureHeader tolerance =
     (case webhookSecret of
        None \<Rightarrow> Inl (RuntimeException secret_not_configured)
      | Some secret \<Rightarrow>
          if falsy_string secret then Inl (RuntimeException secret_not_configured)
          else
            (let parts = parseSignatureHeader signatureHeader;
                 timestamp = parts ''t'';
                 signature = parts ''v1''
             in case (timestamp, signature) of
                  (Some ts, Some sg) \<Rightarrow>
                    if falsy_string ts \<or> falsy_string sg
                    then Inl (WebhookSignatureException
                           ''Format de signature invalide. Attendu: t=<timestamp>,v1=<signature>'')
                    else if \<bar>time rt - intval rt ts\<bar> > tolerance
                    then Inl (WebhookSignatureException ''Timestamp trop ancien, possible replay attack'')
                    else if hash_hmac_sha256 rt (ts @ ''.'' @ body) secret \<noteq> sg
                    then Inl (WebhookSignatureException ''Signature invalide'')
                    else Inr True
                | _ \<Rightarrow>
                    Inl (WebhookSignatureException
                      ''Format de signature invalide. Attendu: t=<timestamp>,v1=<signature>'')))"



subsection \<open>\<^verbatim>\<open>Webhook::parse\<close> and \<^verbatim>\<open>WebhookEvent::getType\<close>\<close>

text \<open>
  A \<^verbatim>\<open>WebhookEvent\<close> wraps the decoded array.  Its constructor declares the parameter
  \<^verbatim>\<open>array $data\<close>, so anything but a list or an object is a \<^verbatim>\<open>TypeError\<close>.
\<close>

datatype WebhookEvent = WebhookEvent json

definition parse :: "php_runtime \<Rightarrow> string \<Rightarrow> php_error + WebhookEvent" where
  "parse rt body =
     (let data = (case json_decode rt body of None \<Rightarrow> JNull | Some v \<Rightarrow> v)
      in if \<not> truthy data then Inl (InvalidArgumentException ''Payload JSON invalide'')
         else (case data of
                 JArray xs \<Rightarrow> Inr (WebhookEvent data)
               | JObject kvs \<Rightarrow> Inr (WebhookEvent data)
               | _ \<Rightarrow> Inl TypeError))"

text \<open>
  \<^verbatim>\<open>$this->data[$key] ?? ...\<close>: the entry under a string key, as long as it is set
  and not \<^verbatim>\<open>null\<close>.  A list has no string keys.
\<close>

definition isset_key :: "json \<Rightarrow> string \<Rightarrow> json option" where
  "isset_key data key =
     (case data of
        JObject kvs \<Rightarrow> (case map_of kvs key of Some JNull \<Rightarrow> None | r \<Rightarrow> r)
      | _ \<Rightarrow> None)"

text \<open>
  \<^verbatim>\<open>return $this->data['event'] ?? $this->data['type'] ?? 'unknown';\<close> with the
  declared return type \<^verbatim>\<open>string\<close>.
\<close>

definition getType :: "WebhookEvent \<Rightarrow> php_error + string" where
  "getType ev =
     (case ev of WebhookEvent data \<Rightarrow>
        (let v = (case isset_key data ''event'' of
                    Some x \<Rightarrow> x
                  | None \<Rightarrow> (case isset_key data ''type'' of
                               Some y \<Rightarrow> y
                             | None \<Rightarrow> JString ''unknown''))
         in case v of
              JString s \<Rightarrow> Inr s
            | _ \<Rightarrow> Inl TypeError))"

text \<open>
  The event names the SDK's TypeScript declarations list
  (\<^verbatim>\<open>WebhookPayload.event\<close> in merchant.ts).  No PHP code consults them.
\<close>

definition known_events :: "string list" where
  "known_events = [''payment.success'', ''payment.failed'', ''payment.cancelled'', ''payment.expired'']"

section \<open>Capability matrix (php/src/Capabilities.php)\<close>

text \<open>
  The class \<^verbatim>\<open>Capabilities\<close> holds three constants: the list of payment
  methods, the list of capability names and the matrix, a PHP array of arrays.  A PHP array
  with string keys is an ordered map; it is modelled as an association list with the rows
  in the order of the source.  \<^verbatim>\<open>self::MATRIX[$method][$capability] ?? false\<close>
  reads a key of a key; the operator \<^verbatim>\<open>??\<close> yields its right operand when either
  key is not set, without raising.
\<close>

definition PAYMENT_METHODS :: "string list" where
  "PAYMENT_METHODS =
     [''ORANGE_MONEY'', ''WAVE'', ''MOOV'', ''CARD'', ''VISA'', ''MASTERCARD'', ''GIM_UEMOA'']"

definition CAPABILITY_TYPES :: "string list" where
  "CAPABILITY_TYPES =
     [''payments'', ''payment_links'', ''qr_code'', ''payouts'', ''withdrawals'', ''opr'',
      ''splits'', ''customer_portal'']"

definition MATRIX :: "(string \<times> (string \<times> bool) list) list" where
  "MATRIX =
     [(''ORANGE_MONEY'',
         [(''payments'', True), (''payment_links'', True), (''qr_code'', False),
          (''payouts'', True), (''withdrawals'', True), (''opr'', True),
          (''splits'', False), (''customer_portal'', False)]),
      (''WAVE'',
         [(''payments'', True), (''payment_links'', True), (''qr_code'', True),
          (''payouts'', True), (''withdrawals'', True), (''opr'', True),
          (''splits'', False), (''customer_portal'', False)]),
      (''MOOV'',
         [(''payments'', True), (''payment_links'', True), (''qr_code'', False),
          (''payouts'', True), (''withdrawals'', True), (''opr'', True),
          (''splits'', False), (''customer_portal'', False)]),
      (''CARD'',
         [(''payments'', True), (''payment_links'', True), (''qr_code'', False),
          (''payouts'', False), (''withdrawals'', True), (''opr'', False),
          (''splits'', True), (''customer_portal'', True)]),
      (''VISA'',
         [(''payments'', True), (''payment_links'', True), (''qr_code'', False),
          (''payouts'', False), (''withdrawals'', True), (''opr'', False),
          (''splits'', True), (''customer_portal'', True)]),
      (''MASTERCARD'',
         [(''payments'', True), (''payment_links'', True), (''qr_code'', False),
          (''payouts'', False), (''withdrawals'', True), (''opr'', False),
          (''splits'', True), (''customer_portal'', True)]),
      (''GIM_UEMOA'',
         [(''payments'', True), (''payment_links'', True), (''qr_code'', False),
          (''payouts'', False), (''withdrawals'', True), (''opr'', False),
          (''splits'', False), (''customer_portal'', False)])]"

text \<open>\<^verbatim>\<open>$caps[$capability] ?? false\<close> on one row.\<close>

definition row_has :: "(string \<times> bool) list \<Rightarrow> string \<Rightarrow> bool" where
  "row_has caps capability = (case map_of caps capability of None \<Rightarrow> False | Some b \<Rightarrow> b)"

text \<open>\<^verbatim>\<open>Capabilities::has\<close>.\<close>

definition has :: "string \<Rightarrow> string \<Rightarrow> bool" where
  "has method capability =
     (case map_of MATRIX method of None \<Rightarrow> False | Some caps \<Rightarrow> row_has caps capability)"

text \<open>\<^verbatim>\<open>Capabilities::get\<close>: the row of a method, or null.\<close>

definition get_caps :: "string \<Rightarrow> (string \<times> bool) list option" where
  "get_caps method = map_of MATRIX method"

text \<open>
  \<^verbatim>\<open>Capabilities::getMethodsWithCapability\<close>: the loop over the matrix appends, in
  the order of the rows, every method whose row answers true.
\<close>

fun methods_loop :: "(string \<times> (string \<times> bool) list) list \<Rightarrow> string \<Rightarrow> string list" where
  "methods_loop [] capability = []"
| "methods_loop ((method, caps) # rest) capability =
     (if row_has caps capability then method # methods_loop rest capability
      else methods_loop rest capability)"

definition getMethodsWithCapability :: "string \<Rightarrow> string list" where
  "getMethodsWithCapability capability = methods_loop MATRIX capability"

section \<open>Status polling (javascript/src/index.ts)\<close>

text \<open>
  \<^verbatim>\<open>PaymentsAPI.poll\<close> and \<^verbatim>\<open>PayoutsAPI.poll\<close> are the same loop with two
  lists of final statuses and two timeout errors.  The loop is a function \<^verbatim>\<open>check\<close>
  that re-arms itself with \<^verbatim>\<open>setTimeout\<close> until it settles the promise.

  Time is in milliseconds, as a rational number: \<^verbatim>\<open>delay * 1.5\<close> leaves the integers.
  The two numeric options are JavaScript numbers, which also have the values
  \<^verbatim>\<open>Infinity\<close>, \<^verbatim>\<open>-Infinity\<close> and \<^verbatim>\<open>NaN\<close>; so has the variable
  \<^verbatim>\<open>delay\<close>, which starts as an option.  The clock is always finite.
  The gateway is the function \<open>checkStatus\<close>: for the \<open>k\<close>-th status request (from 0) it
  gives the time that passes between the moment the request is due and the moment its
  answer is there, and the answer: an error thrown, or a status with its snapshot.  For a
  payment the snapshot is the field \<^verbatim>\<open>payment\<close> of the answer, for a payout the answer
  itself, whose field \<^verbatim>\<open>status\<close> is the status.
\<close>

datatype js_number = Number rat | Infinity | NegInfinity | NaN

record 'p poll_options =
  interval :: "js_number option"
  timeout :: "js_number option"
  onStatus :: "(string \<Rightarrow> 'p \<Rightarrow> js_error option) option"

text \<open>
  \<^verbatim>\<open>options.x || d\<close>: the default replaces a missing option, a zero and
  \<^verbatim>\<open>NaN\<close>; the infinite values count as true and stay.
\<close>

definition or_default :: "js_number option \<Rightarrow> rat \<Rightarrow> js_number" where
  "or_default x d =
     (case x of
        None \<Rightarrow> Number d
      | Some v \<Rightarrow>
          (case v of
             Number r \<Rightarrow> if r = 0 then Number d else Number r
           | Infinity \<Rightarrow> Infinity
           | NegInfinity \<Rightarrow> NegInfinity
           | NaN \<Rightarrow> Number d))"

text \<open>
  \<^verbatim>\<open>Date.now() - start > timeout\<close>, for the finite time that has passed: nothing
  exceeds \<^verbatim>\<open>Infinity\<close>, and a comparison with \<^verbatim>\<open>NaN\<close> is false.
\<close>

definition exceeds :: "rat \<Rightarrow> js_number \<Rightarrow> bool" where
  "exceeds elapsed limit =
     (case limit of
        Number t \<Rightarrow> t < elapsed
      | Infinity \<Rightarrow> False
      | NegInfinity \<Rightarrow> True
      | NaN \<Rightarrow> False)"

text \<open>\<^verbatim>\<open>Math.min(delay * 1.5, 10000)\<close>.\<close>

definition backoff :: "js_number \<Rightarrow> js_number" where
  "backoff d =
     (case d of
        Number r \<Rightarrow> Number (min (r * (3 / 2)) 10000)
      | Infinity \<Rightarrow> Number 10000
      | NegInfinity \<Rightarrow> NegInfinity
      | NaN \<Rightarrow> NaN)"

text \<open>
  \<^verbatim>\<open>setTimeout(f, d)\<close> of Node.js runs \<^verbatim>\<open>f\<close> after \<^verbatim>\<open>d\<close> milliseconds, and
  after one millisecond when \<^verbatim>\<open>d\<close> is below 1, above \<open>2 ^ 31 - 1\<close> or not a
  number.
\<close>

definition setTimeout_after :: "js_number \<Rightarrow> rat" where
  "setTimeout_after d =
     (case d of
        Number r \<Rightarrow> if 1 \<le> r \<and> r \<le> 2147483647 then r else 1
      | Infinity \<Rightarrow> 1
      | NegInfinity \<Rightarrow> 1
      | NaN \<Rightarrow> 1)"

datatype 'p settlement = Resolved 'p | Rejected js_error

text \<open>
  The variables the closure \<^verbatim>\<open>check\<close> works on: the clock when \<^verbatim>\<open>check\<close> is
  entered, the variable \<^verbatim>\<open>delay\<close>, the number of status requests made so far and the
  calls of \<^verbatim>\<open>onStatus\<close> made so far, in order.
\<close>

record 'p poll_state =
  clock :: rat
  delay :: js_number
  requests :: nat
  notified :: "(string \<times> 'p) list"

datatype 'p step = Settled "'p settlement" "'p poll_state" | Scheduled "'p poll_state"

text \<open>
  The \<^verbatim>\<open>catch\<close> clause: with time left the same delay is used again, otherwise the
  promise is rejected with the error caught.
\<close>

definition on_error :: "rat \<Rightarrow> js_number \<Rightarrow> js_error \<Rightarrow> 'p poll_state \<Rightarrow> 'p step" where
  "on_error start timeout_ms err s =
     (if exceeds (clock s - start) timeout_ms then Settled (Rejected err) s
      else Scheduled (s\<lparr>clock := clock s + setTimeout_after (delay s)\<rparr>))"

text \<open>
  One run of \<^verbatim>\<open>check\<close>.  The callback runs inside the \<^verbatim>\<open>try\<close> block, so what it
  throws lands in the \<^verbatim>\<open>catch\<close> clause like a failed request.
\<close>

definition check ::
  "string list \<Rightarrow> js_error \<Rightarrow> (nat \<Rightarrow> rat \<times> (js_error + string \<times> 'p)) \<Rightarrow> 'p poll_options
     \<Rightarrow> rat \<Rightarrow> 'p poll_state \<Rightarrow> 'p step" where
  "check final timeout_error checkStatus options start s =
     (let timeout_ms = or_default (timeout options) 120000;
          s1 = s\<lparr>clock := clock s + fst (checkStatus (requests s)), requests := Suc (requests s)\<rparr>
      in case snd (checkStatus (requests s)) of
           Inl err \<Rightarrow> on_error start timeout_ms err s1
         | Inr (status, snapshot) \<Rightarrow>
             (case onStatus options of
                None \<Rightarrow>
                  if status \<in> set final then Settled (Resolved snapshot) s1
                  else if exceeds (clock s1 - start) timeout_ms
                  then Settled (Rejected timeout_error) s1
                  else (let d = backoff (delay s1)
                        in Scheduled (s1\<lparr>delay := d, clock := clock s1 + setTimeout_after d\<rparr>))
              | Some callback \<Rightarrow>
                  (let s2 = s1\<lparr>notified := notified s1 @ [(status, snapshot)]\<rparr>
                   in case callback status snapshot of
                        Some err \<Rightarrow> on_error start timeout_ms err s2
                      | None \<Rightarrow>
                          if status \<in> set final then Settled (Resolved snapshot) s2
                          else if exceeds (clock s2 - start) timeout_ms
                          then Settled (Rejected timeout_error) s2
                          else (let d = backoff (delay s2)
                                in Scheduled (s2\<lparr>delay := d, clock := clock s2 + setTimeout_after d\<rparr>)))))"

text \<open>
  The chain of runs.  Nothing in the code bounds their number, so the chain is a partial
  function: \<open>None\<close> is the promise that is never settled.
\<close>

partial_function (option) run_checks ::
  "string list \<Rightarrow> js_error \<Rightarrow> (nat \<Rightarrow> rat \<times> (js_error + string \<times> 'p)) \<Rightarrow> 'p poll_options
     \<Rightarrow> rat \<Rightarrow> 'p poll_state \<Rightarrow> ('p settlement \<times> 'p poll_state) option" where
  "run_checks final timeout_error checkStatus options start s =
     (case check final timeout_error checkStatus options start s of
        Settled r s' \<Rightarrow> Some (r, s')
      | Scheduled s' \<Rightarrow> run_checks final timeout_error checkStatus options start s')"

text \<open>
  \<^verbatim>\<open>poll\<close>: \<open>start\<close> is \<^verbatim>\<open>Date.now()\<close> at the call; the first \<^verbatim>\<open>check\<close> runs
  at once.  The result is how the promise is settled, with the final state: the clock at
  that moment, the requests made and the calls of \<^verbatim>\<open>onStatus\<close>.
\<close>

definition poll ::
  "string list \<Rightarrow> js_error \<Rightarrow> (nat \<Rightarrow> rat \<times> (js_error + string \<times> 'p)) \<Rightarrow> 'p poll_options
     \<Rightarrow> rat \<Rightarrow> ('p settlement \<times> 'p poll_state) option" where
  "poll final timeout_error checkStatus options start =
     run_checks final timeout_error checkStatus options start
       \<lparr>clock = start, delay = or_default (interval options) 2000, requests = 0, notified = []\<rparr>"

definition payments_poll ::
  "(nat \<Rightarrow> rat \<times> (js_error + string \<times> 'p)) \<Rightarrow> 'p poll_options \<Rightarrow> rat
     \<Rightarrow> ('p settlement \<times> 'p poll_state) option" where
  "payments_poll = poll [''SUCCESS'', ''FAILED'', ''CANCELLED''] (Error ''Polling timeout'')"

definition payouts_poll ::
  "(nat \<Rightarrow> rat \<times> (js_error + string \<times> 'p)) \<Rightarrow> 'p poll_options \<Rightarrow> rat
     \<Rightarrow> ('p settlement \<times> 'p poll_state) option" where
  "payouts_poll =
     poll [''COMPLETED'', ''FAILED'', ''CANCELLED''] (SahelPayError ''Polling timeout'' ''TIMEOUT'' 408)"

section \<open>Predicates of the properties\<close>

text \<open>
  A gateway that never answers with a final status: every request fails or returns a
  status outside the list.
\<close>

definition never_final :: "string list \<Rightarrow> (nat \<Rightarrow> rat \<times> (js_error + string \<times> 'p)) \<Rightarrow> bool" where
  "never_final final checkStatus =
     (\<forall>k. case snd (checkStatus k) of
             Inl err \<Rightarrow> True
           | Inr (status, snapshot) \<Rightarrow> status \<notin> set final)"


section \<open>A runtime to run the model on\<close>

text \<open>
  The functions above take the digest, the JSON decoder and the clock from their runtime,
  and the general theorems below hold for every runtime.  To evaluate the functions on
  given inputs the runtime has to be given too.  \<open>sample_digest\<close> stands in for
  HMAC-SHA256: it renders 64 lower-case hexadecimal digits, those of the first 32 characters
  of the key followed by the message.  \<open>sample_json\<close> is the JSON decoder on the few bodies
  used below, and rejects every other text.
\<close>

definition hex_digit :: "nat \<Rightarrow> char" where
  "hex_digit n = ''0123456789abcdef'' ! (n mod 16)"

definition hex_byte :: "char \<Rightarrow> string" where
  "hex_byte c = [hex_digit ((of_char c :: nat) div 16), hex_digit (of_char c :: nat)]"

definition sample_digest :: "string \<Rightarrow> string \<Rightarrow> string" where
  "sample_digest key msg = take 64 (concat (map hex_byte (key @ msg)) @ replicate 64 CHR ''0'')"

definition sample_json :: "string \<Rightarrow> json option" where
  \<open>sample_json body =
     (if body = ''{"event":"payment.success","data":{"amount":1000}}''
      then Some (JObject [(''event'', JString ''payment.success''),
                          (''data'', JObject [(''amount'', JNumber 1000)])])
      else if body = ''{"event":"refund.created","data":{"id":"p1"}}''
      then Some (JObject [(''event'', JString ''refund.created''),
                          (''data'', JObject [(''id'', JString ''p1'')])])
      else if body = ''{}'' then Some (JObject [])
      else if body = ''[]'' then Some (JArray [])
      else if body = ''0'' then Some (JNumber 0)
      else None)\<close>

text \<open>The body and the secret of the examples.\<close>

definition sample_body :: string where
  \<open>sample_body = ''{"event":"payment.success","data":{"amount":1000}}''\<close>

definition sample_secret :: string where
  "sample_secret = ''whsec_test123''"

definition sample_js :: "int \<Rightarrow> json js_runtime" where
  "sample_js now_ms =
     \<lparr>hmac_sha256_hex = sample_digest,
      JSON_parse = (\<lambda>body. case sample_json body of
                               None \<Rightarrow> Inl (SyntaxError ''Unexpected token'')
                             | Some v \<Rightarrow> Inr v),
      Date_now = now_ms\<rparr>"

text \<open>
  \<^verbatim>\<open>intval\<close> of the sample is decimal parsing of a sign followed by digits, and 0
  on a string without a leading number.  That is PHP's \<^verbatim>\<open>intval\<close> on the strings
  used below (\<^verbatim>\<open>"0"\<close>, \<^verbatim>\<open>"1700000000"\<close>); it is not on an exponent
  (\<^verbatim>\<open>"1e9"\<close>) or beyond 64 bits.
\<close>

definition sample_php :: "int \<Rightarrow> php_runtime" where
  "sample_php now =
     \<lparr>hash_hmac_sha256 = (\<lambda>data key. sample_digest key data),
      intval = (\<lambda>s. case parseInt10 s of None \<Rightarrow> 0 | Some n \<Rightarrow> n),
      time = now,
      json_decode = sample_json\<rparr>"

text \<open>
  Gateways for the poller: one that answers at once, always with the same status, and one
  that cannot be reached, so that every request fails after the given time.
\<close>

definition always_status :: "string \<Rightarrow> nat \<Rightarrow> rat \<times> (js_error + string \<times> json)" where
  "always_status status k = (0, Inr (status, JObject [(''status'', JString status)]))"

definition failing_after :: "rat \<Rightarrow> nat \<Rightarrow> rat \<times> (js_error + string \<times> json)" where
  "failing_after d k = (d, Inl (JsTypeError ''fetch failed''))"

section \<open>Properties of the capability matrix\<close>

text \<open>The matrix has one row per declared method, and every row has the declared keys.\<close>

lemma MATRIX_keys: "map fst MATRIX = PAYMENT_METHODS"
  by (simp add: MATRIX_def PAYMENT_METHODS_def)

lemma MATRIX_rows: "(m, caps) \<in> set MATRIX \<Longrightarrow> map fst caps = CAPABILITY_TYPES"
  by (auto simp add: MATRIX_def CAPABILITY_TYPES_def)

lemma map_of_MATRIX_None: "method \<notin> set PAYMENT_METHODS \<Longrightarrow> map_of MATRIX method = None"
  using MATRIX_keys by (metis map_of_eq_None_iff set_map)

lemma map_of_MATRIX_Some:
  assumes "method \<in> set PAYMENT_METHODS"
  shows "\<exists>caps. map_of MATRIX method = Some caps \<and> map fst caps = CAPABILITY_TYPES"
proof -
  from assms have "method \<in> fst ` set MATRIX"
    using MATRIX_keys by (metis set_map)
  then obtain caps where c: "map_of MATRIX method = Some caps"
    by (metis map_of_eq_None_iff not_Some_eq)
  then have "(method, caps) \<in> set MATRIX" by (rule map_of_SomeD)
  with c show ?thesis by (auto dest: MATRIX_rows)
qed

lemma row_has_undeclared:
  "map fst caps = CAPABILITY_TYPES \<Longrightarrow> capability \<notin> set CAPABILITY_TYPES \<Longrightarrow>
     row_has caps capability = False"
  by (metis (mono_tags, lifting) map_of_eq_None_iff option.simps(4) row_has_def set_map)

lemma methods_loop_member:
  "m \<in> set (methods_loop M c) \<Longrightarrow> \<exists>caps. (m, caps) \<in> set M \<and> row_has caps c"
  by (induction M c rule: methods_loop.induct) (auto split: if_splits)

text \<open>
  Claim C9.  For every declared payment method and every declared capability the matrix
  holds an entry: the row of the method exists, the key of the capability is set in it,
  and \<open>has\<close> returns the boolean stored there.  The fallback of \<^verbatim>\<open>??\<close> is not
  reached for a declared pair.
\<close>

theorem has_declared_entry:
  "\<forall>method \<in> set PAYMENT_METHODS. \<forall>capability \<in> set CAPABILITY_TYPES.
     \<exists>caps b. map_of MATRIX method = Some caps \<and> map_of caps capability = Some b
       \<and> has method capability = b"
proof (intro ballI)
  fix m c
  assume m: "m \<in> set PAYMENT_METHODS" and c: "c \<in> set CAPABILITY_TYPES"
  from map_of_MATRIX_Some [OF m] obtain caps
    where row: "map_of MATRIX m = Some caps" and keys: "map fst caps = CAPABILITY_TYPES"
    by blast
  from c keys have "c \<in> fst ` set caps" by (metis set_map)
  then obtain b where b: "map_of caps c = Some b"
    by (metis map_of_eq_None_iff not_Some_eq)
  from row b have "has m c = b" by (simp add: has_def row_has_def)
  with row b show "\<exists>caps b. map_of MATRIX m = Some caps \<and> map_of caps c = Some b
       \<and> has m c = b" by blast
qed

theorem has_declared_entry_witness:
  "''CARD'' \<in> set PAYMENT_METHODS \<and> ''payouts'' \<in> set CAPABILITY_TYPES
     \<and> (\<exists>caps b. map_of MATRIX ''CARD'' = Some caps \<and> map_of caps ''payouts'' = Some b
           \<and> has ''CARD'' ''payouts'' = b)
     \<and> has ''CARD'' ''payouts'' = False \<and> has ''WAVE'' ''qr_code'' = True"
proof -
  have m: "''CARD'' \<in> set PAYMENT_METHODS" by (simp add: PAYMENT_METHODS_def)
  have c: "''payouts'' \<in> set CAPABILITY_TYPES" by (simp add: CAPABILITY_TYPES_def)
  have v: "has ''CARD'' ''payouts'' = False \<and> has ''WAVE'' ''qr_code'' = True"
    by (simp add: has_def row_has_def MATRIX_def)
  from has_declared_entry m c v show ?thesis by blast
qed

text \<open>
  Claim C10.  For a method that is not declared, or a capability that is not declared,
  \<open>has\<close> still answers, and answers false; and the method is not among those listed for
  the capability.
\<close>

theorem has_undeclared_false:
  assumes "method \<notin> set PAYMENT_METHODS \<or> capability \<notin> set CAPABILITY_TYPES"
  shows "has method capability = False \<and> method \<notin> set (getMethodsWithCapability capability)"
proof -
  have h: "has method capability = False"
  proof (cases "map_of MATRIX method")
    case None
    then show ?thesis by (simp add: has_def)
  next
    case (Some caps)
    then have "(method, caps) \<in> set MATRIX" by (rule map_of_SomeD)
    then have keys: "map fst caps = CAPABILITY_TYPES" by (rule MATRIX_rows)
    from Some have "method \<in> set PAYMENT_METHODS"
      using map_of_MATRIX_None by fastforce
    with assms have "capability \<notin> set CAPABILITY_TYPES" by simp
    with keys have "row_has caps capability = False" by (rule row_has_undeclared)
    with Some show ?thesis by (simp add: has_def)
  qed
  have "method \<notin> set (methods_loop MATRIX capability)"
  proof
    assume "method \<in> set (methods_loop MATRIX capability)"
    then obtain caps where in_m: "(method, caps) \<in> set MATRIX" and yes: "row_has caps capability"
      using methods_loop_member by blast
    from in_m have "method \<in> set PAYMENT_METHODS"
      using MATRIX_keys by (metis fst_conv image_eqI set_map)
    with assms have "capability \<notin> set CAPABILITY_TYPES" by simp
    with MATRIX_rows [OF in_m] have "row_has caps capability = False" by (rule row_has_undeclared)
    with yes show False by simp
  qed
  with h show ?thesis by (simp add: getMethodsWithCapability_def)
qed

theorem has_undeclared_false_witness:
  "''PAYPAL'' \<notin> set PAYMENT_METHODS \<and> has ''PAYPAL'' ''payments'' = False
     \<and> ''PAYPAL'' \<notin> set (getMethodsWithCapability ''payments'')
     \<and> ''refunds'' \<notin> set CAPABILITY_TYPES \<and> has ''WAVE'' ''refunds'' = False
     \<and> ''WAVE'' \<notin> set (getMethodsWithCapability ''refunds'')"
proof -
  have m: "''PAYPAL'' \<notin> set PAYMENT_METHODS" by (simp add: PAYMENT_METHODS_def)
  have c: "''refunds'' \<notin> set CAPABILITY_TYPES" by (simp add: CAPABILITY_TYPES_def)
  from m have 1: "''PAYPAL'' \<notin> set PAYMENT_METHODS \<or> ''payments'' \<notin> set CAPABILITY_TYPES" by simp
  from c have 2: "''WAVE'' \<notin> set PAYMENT_METHODS \<or> ''refunds'' \<notin> set CAPABILITY_TYPES" by simp
  from has_undeclared_false [OF 1] has_undeclared_false [OF 2] m c show ?thesis by simp
qed

section \<open>Properties of the JavaScript verification\<close>

subsection \<open>Headers and buffers\<close>

lemma split_on_no_sep: "sep \<notin> set s \<Longrightarrow> split_on sep s = [s]"
  by (induction s) auto

lemma is_hex_not_sep: "is_hex c \<Longrightarrow> c \<noteq> CHR '','' \<and> c \<noteq> CHR ''=''"
  by (auto simp: is_hex_def is_digit_def)

text \<open>A header without comma and without equals sign yields no pair at all.\<close>

lemma header_parts_bare:
  assumes "CHR '','' \<notin> set h" and "CHR ''='' \<notin> set h"
  shows "header_parts h = Map.empty"
  using assms by (simp add: header_parts_def split_on_no_sep add_part_def header_pair_def)

text \<open>The encoding of \<open>Buffer_from\<close> loses nothing, so equal buffers come from equal strings.\<close>

lemma utf8_char_not_Nil: "utf8_char c \<noteq> []"
  by (simp add: utf8_char_def Let_def)

lemma utf8_char_inj:
  assumes eq: "utf8_char c @ xs = utf8_char d @ ys"
  shows "c = d \<and> xs = ys"
proof -
  let ?n = "of_char c :: nat" and ?m = "of_char d :: nat"
  have "?n = ?m \<and> xs = ys"
  proof (cases "?n < 128"; cases "?m < 128")
    assume "?n < 128" "?m < 128"
    with eq show ?thesis by (simp add: utf8_char_def Let_def)
  next
    assume "?n < 128" "\<not> ?m < 128"
    with eq show ?thesis by (simp add: utf8_char_def Let_def)
  next
    assume "\<not> ?n < 128" "?m < 128"
    with eq show ?thesis by (simp add: utf8_char_def Let_def)
  next
    assume "\<not> ?n < 128" "\<not> ?m < 128"
    with eq have "?n div 64 = ?m div 64" "?n mod 64 = ?m mod 64" "xs = ys"
      by (simp_all add: utf8_char_def Let_def)
    then show ?thesis by (metis div_mult_mod_eq)
  qed
  then show ?thesis by simp
qed

lemma Buffer_from_inj: "Buffer_from a = Buffer_from b \<Longrightarrow> a = b"
proof (induction a arbitrary: b)
  case Nil
  then show ?case by (cases b) (auto simp: Buffer_from_def utf8_char_not_Nil)
next
  case (Cons c cs)
  show ?case
  proof (cases b)
    case Nil
    with Cons.prems show ?thesis by (auto simp: Buffer_from_def utf8_char_not_Nil)
  next
    case (Cons d ds)
    with Cons.prems have "utf8_char c @ Buffer_from cs = utf8_char d @ Buffer_from ds"
      by (simp add: Buffer_from_def)
    then have "c = d \<and> Buffer_from cs = Buffer_from ds" by (rule utf8_char_inj)
    with Cons.IH Cons show ?thesis by simp
  qed
qed

text \<open>
  The comparison followed by the parsing, under the \<^verbatim>\<open>catch\<close> clause, says valid
  exactly for the expected signature over a body that parses.
\<close>

lemma compare_then_parse_valid:
  "is_valid (case compare_then_parse rt supplied expected m body of
               Inl e \<Rightarrow> Inr (rejected (message e))
             | Inr r \<Rightarrow> Inr r)
     \<longleftrightarrow> supplied = expected \<and> (\<exists>p. JSON_parse rt body = Inr p)"
  by (auto simp: compare_then_parse_def is_valid_def rejected_def accepted_def timingSafeEqual_def
       dest: Buffer_from_inj split: sum.splits)

lemma timingSafeEqual_valid:
  "is_sig_valid (case timingSafeEqual (Buffer_from supplied) (Buffer_from expected) of
                   Inl e \<Rightarrow> Inr \<lparr>sig_valid = False, sig_error = Some (js_String e)\<rparr>
                 | Inr isValid \<Rightarrow> Inr \<lparr>sig_valid = isValid, sig_error = x isValid\<rparr>)
     \<longleftrightarrow> supplied = expected"
  by (auto simp: is_sig_valid_def timingSafeEqual_def dest: Buffer_from_inj)

subsection \<open>Evaluation on the sample runtime\<close>

lemma digest_bare:
  "sample_digest sample_secret sample_body
     = ''77687365635f746573743132337b226576656e74223a227061796d656e742e73''"
  by (simp add: sample_digest_def sample_secret_def sample_body_def hex_byte_def hex_digit_def)

lemma digest_zero:
  "sample_digest sample_secret (''0.'' @ sample_body)
     = ''77687365635f74657374313233302e7b226576656e74223a227061796d656e74''"
  by (simp add: sample_digest_def sample_secret_def sample_body_def hex_byte_def hex_digit_def)

lemma json_sample_body:
  "sample_json sample_body =
     Some (JObject [(''event'', JString ''payment.success''),
                    (''data'', JObject [(''amount'', JNumber 1000)])])"
  by (simp add: sample_json_def sample_body_def)

lemma sample_secret_truthy: "sample_secret \<noteq> []" "\<not> falsy_string sample_secret"
  by (simp_all add: sample_secret_def falsy_string_def)

lemma header_parts_digest_bare:
  "header_parts ''77687365635f746573743132337b226576656e74223a227061796d656e742e73'' = Map.empty"
  by (simp add: header_parts_def add_part_def header_pair_def)

subsection \<open>The bare signature\<close>

text \<open>
  Claim C2, as the code has it.  A header of 64 hexadecimal digits carries no pair, so
  both functions take the branch of the old format, whatever the tolerance and the
  clock: the header is accepted exactly when it is the HMAC of the body under the secret
  (and, in the SDK, the body parses as JSON).  No argument, option or field switches the
  branch on or off.
\<close>

theorem bare_signature_accepted_iff_hmac:
  assumes "secret \<noteq> []" and "length h = 64" and "\<forall>c \<in> set h. is_hex c"
  shows "(is_valid (verifyWebhook rt (Some secret) rawBody (Some h) tol)
            \<longleftrightarrow> h = hmac_sha256_hex rt secret rawBody \<and> (\<exists>p. JSON_parse rt rawBody = Inr p))
       \<and> (is_sig_valid (verifySignature rt rawBody h secret tol)
            \<longleftrightarrow> h = hmac_sha256_hex rt secret rawBody)"
proof -
  from assms(3) have "CHR '','' \<notin> set h" "CHR ''='' \<notin> set h"
    using is_hex_not_sep by blast+
  then have none: "header_parts h = Map.empty" by (rule header_parts_bare)
  from assms(2) have ne: "h \<noteq> []" by auto
  from none ne assms(1,2) have "verifyWebhook rt (Some secret) rawBody (Some h) tol =
     (case compare_then_parse rt h (hmac_sha256_hex rt secret rawBody)
             ''Invalid signature (legacy)'' rawBody of
        Inl e \<Rightarrow> Inr (rejected (message e))
      | Inr r \<Rightarrow> Inr r)"
    by (simp add: verifyWebhook_def verifyWebhook_try_def)
  then have sdk: "is_valid (verifyWebhook rt (Some secret) rawBody (Some h) tol)
            \<longleftrightarrow> h = hmac_sha256_hex rt secret rawBody \<and> (\<exists>p. JSON_parse rt rawBody = Inr p)"
    by (simp only: compare_then_parse_valid)
  from none assms(2) have "verifySignature rt rawBody h secret tol =
     (case timingSafeEqual (Buffer_from h) (Buffer_from (hmac_sha256_hex rt secret rawBody)) of
        Inl e \<Rightarrow> Inr \<lparr>sig_valid = False, sig_error = Some (js_String e)\<rparr>
      | Inr isValid \<Rightarrow> Inr \<lparr>sig_valid = isValid, sig_error = (\<lambda>b. None) isValid\<rparr>)"
    by (simp add: verifySignature_def verifySignature_try_def split: sum.splits)
  then have "is_sig_valid (verifySignature rt rawBody h secret tol)
            \<longleftrightarrow> h = hmac_sha256_hex rt secret rawBody"
    by (simp only: timingSafeEqual_valid)
  with sdk show ?thesis by simp
qed

theorem bare_signature_accepted_iff_hmac_witness:
  "length ''77687365635f746573743132337b226576656e74223a227061796d656e742e73'' = 64
   \<and> is_valid (verifyWebhook (sample_js 0) (Some sample_secret) sample_body
        (Some ''77687365635f746573743132337b226576656e74223a227061796d656e742e73'') 300)
   \<and> is_sig_valid (verifySignature (sample_js 0) sample_body
        ''77687365635f746573743132337b226576656e74223a227061796d656e742e73'' sample_secret 300)
   \<and> \<not> is_valid (verifyWebhook (sample_js 0) (Some sample_secret) sample_body
        (Some ''0000000000000000000000000000000000000000000000000000000000000000'') 300)"
proof -
  let ?h = "''77687365635f746573743132337b226576656e74223a227061796d656e742e73''"
  let ?z = "''0000000000000000000000000000000000000000000000000000000000000000''"
  have len: "length ?h = 64" "length ?z = 64" by simp_all
  have hex: "\<forall>c \<in> set ?h. is_hex c" "\<forall>c \<in> set ?z. is_hex c"
    by (simp_all add: is_hex_def is_digit_def)
  have mac: "hmac_sha256_hex (sample_js 0) sample_secret sample_body = ?h"
    by (simp add: sample_js_def digest_bare)
  have js: "JSON_parse (sample_js 0) sample_body =
      Inr (JObject [(''event'', JString ''payment.success''),
                    (''data'', JObject [(''amount'', JNumber 1000)])])"
    by (simp add: sample_js_def json_sample_body)
  from bare_signature_accepted_iff_hmac [OF sample_secret_truthy(1) len(1) hex(1),
      of "sample_js 0" sample_body 300]
    bare_signature_accepted_iff_hmac [OF sample_secret_truthy(1) len(2) hex(2),
      of "sample_js 0" sample_body 300]
    mac js len
  show ?thesis by simp
qed

text \<open>
  The claim as stated fails: with nothing enabled (there is nothing to enable) the bare
  signature is accepted, here for a clock that stands at the epoch.
\<close>

theorem bare_signature_accepted_without_switch:
  "verifyWebhook (sample_js 0) (Some sample_secret) sample_body
     (Some ''77687365635f746573743132337b226576656e74223a227061796d656e742e73'') 300
   = Inr (accepted (JObject [(''event'', JString ''payment.success''),
                             (''data'', JObject [(''amount'', JNumber 1000)])]))"
  by (simp add: verifyWebhook_def verifyWebhook_try_def header_parts_digest_bare
        compare_then_parse_def sample_js_def digest_bare timingSafeEqual_def json_sample_body
        sample_secret_truthy)

subsection \<open>The timestamp\<close>

text \<open>
  A header that carries a pair \<^verbatim>\<open>t\<close> and a pair \<^verbatim>\<open>v1\<close> is never taken for the
  old format.  When the timestamp reads as a number further than the tolerance from the
  clock, the function rejects before it computes any HMAC, so the signature has no say.
\<close>

lemma verifyWebhook_stale:
  assumes "secret \<noteq> []"
    and "header_parts h ''t'' = Some ts" and "header_parts h ''v1'' = Some sg"
    and "parseInt10 ts = Some t" and "\<bar>Date_now rt div 1000 - t\<bar> > tol"
  shows "verifyWebhook rt (Some secret) rawBody (Some h) tol
           = Inr (rejected ''Timestamp too old, possible replay attack'')"
proof -
  from assms(2) have "h \<noteq> []"
    by (auto simp: header_parts_def add_part_def header_pair_def)
  with assms show ?thesis by (simp add: verifyWebhook_def verifyWebhook_try_def)
qed

lemma verifySignature_stale:
  assumes "header_parts h ''t'' = Some ts" and "header_parts h ''v1'' = Some sg"
    and "parseInt10 ts = Some t" and "\<bar>Date_now rt div 1000 - t\<bar> > tol"
  shows "verifySignature rt rawBody h secret tol
           = Inr \<lparr>sig_valid = False, sig_error = Some ''Timestamp too old''\<rparr>"
  using assms by (simp add: verifySignature_def verifySignature_try_def)

text \<open>The header in its documented form, \<^verbatim>\<open>t=<timestamp>,v1=<signature>\<close>.\<close>

lemma split_on_append: "sep \<notin> set a \<Longrightarrow> split_on sep (a @ sep # b) = a # split_on sep b"
  by (induction a) auto

lemma header_pair_plain:
  assumes "key \<noteq> []" and "v \<noteq> []" and "CHR ''='' \<notin> set key" and "CHR ''='' \<notin> set v"
  shows "header_pair (key @ ''='' @ v) = Some (key, v)"
  using assms by (simp add: header_pair_def split_on_append split_on_no_sep)

lemma header_parts_documented:
  assumes "ts \<noteq> []" and "sg \<noteq> []"
    and "CHR '','' \<notin> set ts" and "CHR ''='' \<notin> set ts"
    and "CHR '','' \<notin> set sg" and "CHR ''='' \<notin> set sg"
  shows "header_parts (''t='' @ ts @ '',v1='' @ sg) ''t'' = Some ts
       \<and> header_parts (''t='' @ ts @ '',v1='' @ sg) ''v1'' = Some sg"
proof -
  from assms(3) have "CHR '','' \<notin> set (''t='' @ ts)" by simp
  then have "split_on CHR '','' ((''t='' @ ts) @ CHR '','' # (''v1='' @ sg))
               = (''t='' @ ts) # split_on CHR '','' (''v1='' @ sg)"
    by (rule split_on_append)
  moreover from assms(5) have "split_on CHR '','' (''v1='' @ sg) = [''v1='' @ sg]"
    by (simp add: split_on_no_sep)
  ultimately have sp: "split_on CHR '','' (''t='' @ ts @ '',v1='' @ sg) = [''t='' @ ts, ''v1='' @ sg]"
    by simp
  from assms(1,4) have p1: "header_pair (''t='' @ ts) = Some (''t'', ts)"
    using header_pair_plain [of "''t''" ts] by simp
  from assms(2,6) have p2: "header_pair (''v1='' @ sg) = Some (''v1'', sg)"
    using header_pair_plain [of "''v1''" sg] by simp
  from sp p1 p2 show ?thesis by (simp add: header_parts_def add_part_def)
qed

section \<open>Properties of the PHP verification and parsing\<close>

lemma takeWhile_upto_sep: "sep \<notin> set a \<Longrightarrow> takeWhile (\<lambda>c. c \<noteq> sep) (a @ sep # b) = a"
  by (induction a) auto

lemma dropWhile_upto_sep: "sep \<notin> set a \<Longrightarrow> dropWhile (\<lambda>c. c \<noteq> sep) (a @ sep # b) = sep # b"
  by (induction a) auto

lemma explode_2_plain:
  assumes "CHR ''='' \<notin> set key"
  shows "explode_2 CHR ''='' (key @ ''='' @ v) = [key, v]"
  using assms by (simp add: explode_2_def takeWhile_upto_sep dropWhile_upto_sep)

lemma parseSignatureHeader_documented:
  assumes "CHR '','' \<notin> set ts" and "CHR '','' \<notin> set sg"
  shows "parseSignatureHeader (''t='' @ ts @ '',v1='' @ sg) ''t'' = Some ts
       \<and> parseSignatureHeader (''t='' @ ts @ '',v1='' @ sg) ''v1'' = Some sg"
proof -
  from assms(1) have "CHR '','' \<notin> set (''t='' @ ts)" by simp
  then have "split_on CHR '','' ((''t='' @ ts) @ CHR '','' # (''v1='' @ sg))
               = (''t='' @ ts) # split_on CHR '','' (''v1='' @ sg)"
    by (rule split_on_append)
  moreover from assms(2) have "split_on CHR '','' (''v1='' @ sg) = [''v1='' @ sg]"
    by (simp add: split_on_no_sep)
  ultimately have sp: "split_on CHR '','' (''t='' @ ts @ '',v1='' @ sg) = [''t='' @ ts, ''v1='' @ sg]"
    by simp
  have p1: "explode_2 CHR ''='' (''t='' @ ts) = [''t'', ts]"
    using explode_2_plain [of "''t''" ts] by simp
  have p2: "explode_2 CHR ''='' (''v1='' @ sg) = [''v1'', sg]"
    using explode_2_plain [of "''v1''" sg] by simp
  from sp p1 p2 show ?thesis by (simp add: parseSignatureHeader_def add_segment_def)
qed

text \<open>
  The PHP function rejects a stale timestamp in the same way, as long as the timestamp
  and the signature pass the test \<^verbatim>\<open>!$timestamp || !$signature\<close> that comes first.
\<close>

lemma verify_stale:
  assumes "\<not> falsy_string secret"
    and "parseSignatureHeader h ''t'' = Some ts" and "parseSignatureHeader h ''v1'' = Some sg"
    and "\<not> falsy_string ts" and "\<not> falsy_string sg"
    and "\<bar>time rt - intval rt ts\<bar> > tol"
  shows "verify rt (Some secret) body h tol
           = Inl (WebhookSignatureException ''Timestamp trop ancien, possible replay attack'')"
  using assms by (simp add: verify_def)

text \<open>The PHP function has no branch for the old format: a bare signature is malformed.\<close>

lemma verify_bare_signature_rejected:
  assumes "\<not> falsy_string secret" and "CHR '','' \<notin> set h" and "CHR ''='' \<notin> set h"
  shows "verify rt (Some secret) body h tol
           = Inl (WebhookSignatureException
                    ''Format de signature invalide. Attendu: t=<timestamp>,v1=<signature>'')"
proof -
  from assms(2,3) have "parseSignatureHeader h = Map.empty"
    by (simp add: parseSignatureHeader_def split_on_no_sep add_segment_def explode_2_def)
  with assms(1) show ?thesis by (simp add: verify_def)
qed

text \<open>
  Claim C4, at the timestamp 0.  The header is \<^verbatim>\<open>t=0,v1=\<close> followed by the digest
  of \<^verbatim>\<open>0.\<close> and the body under the secret, the clock stands at 1700000000 seconds and
  the tolerance is 300.  PHP takes the string \<^verbatim>\<open>"0"\<close> for false, so \<open>verify\<close> reports
  a header without timestamp, not a stale one.  \<open>verifyWebhook\<close> reports the stale
  timestamp on the same input.
\<close>

theorem verify_zero_timestamp_format_error:
  "verify (sample_php 1700000000) (Some sample_secret) sample_body
     (''t=0,v1='' @ sample_digest sample_secret (''0.'' @ sample_body)) 300
     = Inl (WebhookSignatureException
              ''Format de signature invalide. Attendu: t=<timestamp>,v1=<signature>'')
   \<and> hash_hmac_sha256 (sample_php 1700000000) (''0.'' @ sample_body) sample_secret
       = sample_digest sample_secret (''0.'' @ sample_body)
   \<and> \<bar>time (sample_php 1700000000) - intval (sample_php 1700000000) ''0''\<bar> > 300
   \<and> verifyWebhook (sample_js 1700000000000) (Some sample_secret) sample_body
        (Some (''t=0,v1='' @ sample_digest sample_secret (''0.'' @ sample_body))) 300
       = Inr (rejected ''Timestamp too old, possible replay attack'')"
proof -
  let ?sg = "''77687365635f74657374313233302e7b226576656e74223a227061796d656e74''"
  have php_parts: "parseSignatureHeader (''t=0,v1='' @ ?sg) ''t'' = Some ''0''"
      "parseSignatureHeader (''t=0,v1='' @ ?sg) ''v1'' = Some ?sg"
    using parseSignatureHeader_documented [of "''0''" ?sg] by simp_all
  have js_parts: "header_parts (''t=0,v1='' @ ?sg) ''t'' = Some ''0''"
      "header_parts (''t=0,v1='' @ ?sg) ''v1'' = Some ?sg"
    using header_parts_documented [of "''0''" ?sg] by simp_all
  have zero: "parseInt10 ''0'' = Some 0"
    by (simp add: parseInt10_def js_whitespace_def is_digit_def dec_value_def)
  have php: "verify (sample_php 1700000000) (Some sample_secret) sample_body (''t=0,v1='' @ ?sg) 300
     = Inl (WebhookSignatureException
              ''Format de signature invalide. Attendu: t=<timestamp>,v1=<signature>'')"
    using php_parts sample_secret_truthy(2) by (simp add: verify_def falsy_string_def)
  have js: "verifyWebhook (sample_js 1700000000000) (Some sample_secret) sample_body
        (Some (''t=0,v1='' @ ?sg)) 300
       = Inr (rejected ''Timestamp too old, possible replay attack'')"
    by (rule verifyWebhook_stale [OF sample_secret_truthy(1) js_parts zero])
       (simp add: sample_js_def)
  have mac: "hash_hmac_sha256 (sample_php 1700000000) (''0.'' @ sample_body) sample_secret = ?sg"
    by (simp only: sample_php_def php_runtime.simps digest_zero)
  have late: "\<bar>time (sample_php 1700000000) - intval (sample_php 1700000000) ''0''\<bar> > 300"
    using zero by (simp add: sample_php_def)
  from php js mac late show ?thesis
    unfolding digest_zero by (intro conjI)
qed





text \<open>
  Claim C7, as the code has it.  \<open>parse\<close> throws its \<^verbatim>\<open>InvalidArgumentException\<close>
  exactly when the body does not decode or decodes to a value PHP takes for false:
  \<^verbatim>\<open>null\<close>, \<^verbatim>\<open>false\<close>, zero, the strings \<^verbatim>\<open>""\<close> and \<^verbatim>\<open>"0"\<close>, and the empty
  list or object.  A body that decodes to an object with entries is accepted, and
  \<open>getType\<close> hands out the string under \<^verbatim>\<open>event\<close> as it is, listed in
  \<open>known_events\<close> or not.
\<close>

theorem parse_rejects_iff_undecodable_or_empty:
  "(parse rt body = Inl (InvalidArgumentException ''Payload JSON invalide'')
      \<longleftrightarrow> json_decode rt body = None \<or> (\<exists>v. json_decode rt body = Some v \<and> \<not> truthy v))
   \<and> (\<forall>kvs. json_decode rt body = Some (JObject kvs) \<and> kvs \<noteq> [] \<longrightarrow>
         parse rt body = Inr (WebhookEvent (JObject kvs))
         \<and> (\<forall>s. map_of kvs ''event'' = Some (JString s) \<longrightarrow>
               getType (WebhookEvent (JObject kvs)) = Inr s))"
proof (intro conjI allI impI)
  show "parse rt body = Inl (InvalidArgumentException ''Payload JSON invalide'')
      \<longleftrightarrow> json_decode rt body = None \<or> (\<exists>v. json_decode rt body = Some v \<and> \<not> truthy v)"
  proof (cases "json_decode rt body")
    case None
    then show ?thesis by (simp add: parse_def)
  next
    case (Some v)
    then show ?thesis by (cases v) (simp_all add: parse_def Let_def)
  qed
next
  fix kvs
  assume "json_decode rt body = Some (JObject kvs) \<and> kvs \<noteq> []"
  then show "parse rt body = Inr (WebhookEvent (JObject kvs))" by (simp add: parse_def Let_def)
next
  fix kvs s
  assume "map_of kvs ''event'' = Some (JString s)"
  then show "getType (WebhookEvent (JObject kvs)) = Inr s"
    by (simp add: getType_def isset_key_def)
qed

theorem parse_rejects_iff_undecodable_or_empty_witness:
  \<open>''refund.created'' \<notin> set known_events
   \<and> parse (sample_php 0) ''{"event":"refund.created","data":{"id":"p1"}}''
       = Inr (WebhookEvent (JObject [(''event'', JString ''refund.created''),
                                     (''data'', JObject [(''id'', JString ''p1'')])]))
   \<and> getType (WebhookEvent (JObject [(''event'', JString ''refund.created''),
                                     (''data'', JObject [(''id'', JString ''p1'')])]))
       = Inr ''refund.created''
   \<and> parse (sample_php 0) ''not json'' = Inl (InvalidArgumentException ''Payload JSON invalide'')\<close>
proof -
  let ?kvs = "[(''event'', JString ''refund.created''), (''data'', JObject [(''id'', JString ''p1'')])]"
  have dec: \<open>json_decode (sample_php 0) ''{"event":"refund.created","data":{"id":"p1"}}''
               = Some (JObject ?kvs)\<close>
    by (simp add: sample_php_def sample_json_def)
  have bad: "json_decode (sample_php 0) ''not json'' = None"
    by (simp add: sample_php_def sample_json_def)
  have unknown: "''refund.created'' \<notin> set known_events" by (simp add: known_events_def)
  have ev: "map_of ?kvs ''event'' = Some (JString ''refund.created'')" by simp
  from parse_rejects_iff_undecodable_or_empty
         [of "sample_php 0" \<open>''{"event":"refund.created","data":{"id":"p1"}}''\<close>]
       parse_rejects_iff_undecodable_or_empty [of "sample_php 0" "''not json''"]
       dec bad unknown ev
  show ?thesis by simp
qed

text \<open>
  The claim as stated fails: the empty object is JSON, and \<open>parse\<close> rejects it with the
  error it has for a body that is not.
\<close>

theorem parse_rejects_empty_object:
  "json_decode (sample_php 0) ''{}'' = Some (JObject [])
   \<and> parse (sample_php 0) ''{}'' = Inl (InvalidArgumentException ''Payload JSON invalide'')"
  by (simp add: parse_def sample_php_def sample_json_def)

section \<open>Properties of the status poller\<close>

subsection \<open>One run of \<^verbatim>\<open>check\<close>\<close>



lemma or_default_not_NaN: "or_default x d \<noteq> NaN"
  by (simp add: or_default_def split: option.splits js_number.splits)

text \<open>
  A final status settles the promise with its snapshot in the same run, after the callback
  has seen it, unless the callback throws.
\<close>

lemma check_final_resolves:
  assumes "snd (checkStatus (requests s)) = Inr (status, snapshot)" and "status \<in> set final"
    and "\<forall>callback. onStatus options = Some callback \<longrightarrow> callback status snapshot = None"
  shows "\<exists>s'. check final timeout_error checkStatus options start s = Settled (Resolved snapshot) s'
           \<and> requests s' = Suc (requests s)
           \<and> notified s' = notified s @ (case onStatus options of
                                             None \<Rightarrow> []
                                           | Some callback \<Rightarrow> [(status, snapshot)])"
  using assms by (cases "onStatus options") (simp_all add: check_def Let_def)


subsection \<open>The chain of runs ends when the timeout is finite\<close>


subsection \<open>The chain of runs never ends when the timeout is infinite\<close>



lemma failing_after_never_final: "never_final final (failing_after d)"
  by (simp add: never_final_def failing_after_def)






subsection \<open>Final statuses\<close>

text \<open>
  Claim C1, at the status \<^verbatim>\<open>EXPIRED\<close>.  The type \<^verbatim>\<open>Payment\<close> declares it, the
  list in \<^verbatim>\<open>PaymentsAPI.poll\<close> does not hold it: a gateway that answers
  \<^verbatim>\<open>EXPIRED\<close> at once and every time is polled five times, and after 24250 ms the
  promise is rejected with \<^verbatim>\<open>Polling timeout\<close> (timeout 20000 ms).
\<close>

theorem payments_poll_expired_times_out:
  "payments_poll (always_status ''EXPIRED'')
     \<lparr>interval = None, timeout = Some (Number 20000), onStatus = None\<rparr> 0
   = Some (Rejected (Error ''Polling timeout''),
           \<lparr>clock = 24250, delay = Number 10000, requests = 5, notified = []\<rparr>)"
  by (simp add: payments_poll_def poll_def run_checks.simps check_def on_error_def
        always_status_def or_default_def setTimeout_after_def exceeds_def backoff_def)

subsection \<open>Two pending answers, then success\<close>




text \<open>
  The two conditions on the time are what it takes for the run to make three requests.
  When the first pending answer is there after the timeout, the run ends with that
  request; when the second is, it ends with the second.
\<close>

lemma payments_poll_first_pending_late:
  fixes options :: "'p poll_options"
  assumes "checkStatus 0 = (d0, Inr (''PENDING'', p0))"
    and "\<forall>callback. onStatus options = Some callback \<longrightarrow> callback ''PENDING'' p0 = None"
    and "exceeds d0 (or_default (timeout options) 120000)"
  shows "\<exists>s'. payments_poll checkStatus options start
                = Some (Rejected (Error ''Polling timeout''), s')
           \<and> requests s' = 1"
  using assms
  by (cases "onStatus options")
     (simp_all add: payments_poll_def poll_def run_checks.simps check_def Let_def)

lemma payments_poll_second_pending_late:
  fixes options :: "'p poll_options"
  assumes "checkStatus 0 = (d0, Inr (''PENDING'', p0))"
    and "checkStatus 1 = (d1, Inr (''PENDING'', p1))"
    and "\<forall>callback. onStatus options = Some callback \<longrightarrow>
           callback ''PENDING'' p0 = None \<and> callback ''PENDING'' p1 = None"
    and "\<not> exceeds d0 (or_default (timeout options) 120000)"
    and "exceeds (d0 + setTimeout_after (backoff (or_default (interval options) 2000)) + d1)
           (or_default (timeout options) 120000)"
  shows "\<exists>s'. payments_poll checkStatus options start
                = Some (Rejected (Error ''Polling timeout''), s')
           \<and> requests s' = 2"
  using assms
  by (cases "onStatus options")
     (simp_all add: payments_poll_def poll_def run_checks.simps check_def Let_def add.assoc)

end
